theory Spec2Isabelle
  imports Main "HOL-Library.Char_ord" "HOL-Library.List_Lexorder" "HOL-Library.Multiset"
begin

section \<open>Text and character classes\<close>

text \<open>
  A Python \<open>str\<close> is a sequence of code points. The model is \<open>string\<close>, one \<open>char\<close> per
  code point, so it covers the texts whose code points lie in 0..255 (ASCII and Latin-1).
  The classes below are those of CPython's \<open>re\<close> module in its default (Unicode) mode and
  of \<open>str.strip\<close>, restricted to that range.
\<close>

definition code :: "char \<Rightarrow> nat" where
  "code c = of_char c"

fun in_ranges :: "nat \<Rightarrow> (nat \<times> nat) list \<Rightarrow> bool" where
  "in_ranges n [] = False"
| "in_ranges n ((lo, hi) # rs) = (if lo \<le> n \<and> n \<le> hi then True else in_ranges n rs)"

text \<open>\<open>\d\<close>: the decimal digits.\<close>

definition is_digit :: "char \<Rightarrow> bool" where
  "is_digit c = in_ranges (code c) [(48, 57)]"

text \<open>\<open>\s\<close> and the characters removed by \<open>strip()\<close>: TAB..CR, FS..US, space, NEL, NBSP.\<close>

definition is_space :: "char \<Rightarrow> bool" where
  "is_space c = in_ranges (code c) [(9, 13), (28, 32), (133, 133), (160, 160)]"

text \<open>\<open>\w\<close>: alphanumeric code points and the underscore.\<close>

definition is_word :: "char \<Rightarrow> bool" where
  "is_word c =
     in_ranges (code c)
       [(48, 57), (65, 90), (95, 95), (97, 122), (170, 170), (178, 179), (181, 181),
        (185, 186), (188, 190), (192, 214), (216, 246), (248, 255)]"

text \<open>
  Case folding of \<open>re.I\<close>: the pattern is folded to lower case when it is compiled and
  each character of the text when it is compared. Every literal of the patterns below is
  ASCII, and within 0..255 only \<open>A..Z\<close> fold to an ASCII letter, so folding \<open>A..Z\<close> is
  all that a comparison with a pattern literal can observe.
\<close>

definition to_lower :: "char \<Rightarrow> char" where
  "to_lower c = (if in_ranges (code c) [(65, 90)] then char_of (code c + 32) else c)"

section \<open>Regular expressions\<close>

text \<open>
  The fragment of the \<open>re\<close> syntax that \<open>fetch.py\<close> uses: literals, the class \<open>[a-b]\<close>,
  \<open>\d\<close>, \<open>\s\<close>, \<open>\b\<close>, concatenation, \<open>|\<close>, \<open>?\<close> and \<open>*\<close> on a single character class.
  All the searches of the program pass \<open>re.I\<close>: \<open>Lit c\<close> holds a literal already folded
  to lower case (\<open>lit\<close> below folds a word of the pattern), and matches the characters
  that fold to it.
\<close>

datatype cls = Lit char | Range char char | Digit | Space

fun cmatch :: "cls \<Rightarrow> char \<Rightarrow> bool" where
  "cmatch (Lit c) x = (to_lower x = c)"
| "cmatch (Range a b) x = in_ranges (code x) [(code a, code b)]"
| "cmatch Digit x = is_digit x"
| "cmatch Space x = is_space x"

datatype rx = Eps | Atom cls | WordB | Seq rx rx | Alt rx rx | Opt rx | Star cls

fun wt :: "rx \<Rightarrow> nat" where
  "wt (Seq a b) = wt a + wt b + 1"
| "wt (Alt a b) = wt a + wt b + 1"
| "wt (Opt a) = wt a + 1"
| "wt _ = 1"

text \<open>\<open>next_word s\<close>: the character at the current position exists and is a word character.\<close>

fun next_word :: "string \<Rightarrow> bool" where
  "next_word [] = False"
| "next_word (x # xs) = is_word x"

text \<open>
  \<open>rmatch k pw s\<close>: the expressions of \<open>k\<close>, one after the other, match a prefix of \<open>s\<close>;
  \<open>pw\<close> tells whether the character before \<open>s\<close> exists and is a word character, which is
  what \<open>\b\<close> looks at. The search of the program only asks whether a match exists, so the
  order in which a backtracking matcher tries the alternatives does not show.
\<close>

function rmatch :: "rx list \<Rightarrow> bool \<Rightarrow> string \<Rightarrow> bool" where
  "rmatch [] pw s = True"
| "rmatch (Eps # k) pw s = rmatch k pw s"
| "rmatch (Atom c # k) pw [] = False"
| "rmatch (Atom c # k) pw (x # xs) = (if cmatch c x then rmatch k (is_word x) xs else False)"
| "rmatch (WordB # k) pw s = (if pw = next_word s then False else rmatch k pw s)"
| "rmatch (Seq a b # k) pw s = rmatch (a # b # k) pw s"
| "rmatch (Alt a b # k) pw s = (if rmatch (a # k) pw s then True else rmatch (b # k) pw s)"
| "rmatch (Opt a # k) pw s = (if rmatch (a # k) pw s then True else rmatch k pw s)"
| "rmatch (Star c # k) pw [] = rmatch k pw []"
| "rmatch (Star c # k) pw (x # xs) =
     (if cmatch c x
      then (if rmatch (Star c # k) (is_word x) xs then True else rmatch k pw (x # xs))
      else rmatch k pw (x # xs))"
  by pat_completeness auto
termination
  by (relation "measures [\<lambda>(k, pw, s). length s, \<lambda>(k, pw, s). sum_list (map wt k)]") auto

text \<open>\<open>re.search\<close>: a match may start at any position, the end of the text included.\<close>

fun search_from :: "rx \<Rightarrow> bool \<Rightarrow> string \<Rightarrow> bool" where
  "search_from r pw [] = rmatch [r] pw []"
| "search_from r pw (x # xs) =
     (if rmatch [r] pw (x # xs) then True else search_from r (is_word x) xs)"

definition search :: "rx \<Rightarrow> string \<Rightarrow> bool" where
  "search r s = search_from r False s"

text \<open>A literal word, a concatenation and an alternation of several expressions.\<close>

fun lit :: "string \<Rightarrow> rx" where
  "lit [] = Eps"
| "lit [c] = Atom (Lit (to_lower c))"
| "lit (c # cs) = Seq (Atom (Lit (to_lower c))) (lit cs)"

fun seqs :: "rx list \<Rightarrow> rx" where
  "seqs [] = Eps"
| "seqs [r] = r"
| "seqs (r # rs) = Seq r (seqs rs)"

fun alts :: "rx list \<Rightarrow> rx" where
  "alts [] = Eps"
| "alts [r] = r"
| "alts (r # rs) = Alt r (alts rs)"

text \<open>
  Most patterns of the program have the shape \<open>\bA|B|...|Z\b\<close>. Alternation binds weakest,
  so the first \<open>\b\<close> belongs to the first word only and the last \<open>\b\<close> to the last word
  only; the words in between match anywhere, inside longer words too.
\<close>

definition edge_alts :: "string \<Rightarrow> string list \<Rightarrow> string \<Rightarrow> rx" where
  "edge_alts first middle final =
     alts (Seq WordB (lit first) # map lit middle @ [Seq (lit final) WordB])"

section \<open>Geography classifier\<close>

definition REGION_MAP :: "(rx \<times> (string \<times> string)) list" where
  "REGION_MAP =
     [(edge_alts ''Germany''
         [''German'', ''Bundesnetzagentur'', ''BNetzA'', ''Fraunhofer'', ''TenneT'', ''50Hertz'',
          ''Amprion'']
         ''TransnetBW'', (''Germany'', ''DE'')),
      (edge_alts ''India''
         [''MNRE'', ''SECI'', ''CEA'', ''CERC'', ''Gujarat'', ''Maharashtra'', ''Rajasthan'',
          ''Grid-India'']
         ''POSOCO'', (''India'', ''IN'')),
      (edge_alts ''Europe'' [''European Commission''] ''EU'', (''Europe'', ''EU''))]"

text \<open>The loop \<open>for rx, v in RULES: if rx.search(text): return v\<close>.\<close>

fun first_rule :: "(rx \<times> 'a) list \<Rightarrow> string \<Rightarrow> 'a option" where
  "first_rule [] text = None"
| "first_rule ((r, v) # rules) text = (if search r text then Some v else first_rule rules text)"

datatype error = ValueError | KeyError

text \<open>
  \<open>urlparse(text).netloc\<close>, after \<open>urllib.parse.urlsplit\<close>: leading C0 controls and spaces
  are stripped, TAB, CR and LF removed, a scheme (a letter, then scheme characters, up to the
  first colon) is split off, and a network location is read only when what is left begins
  with two slashes; it ends at the first slash, question mark or hash. One bracket without
  the other raises \<open>ValueError\<close>, and so does a bracketed host that is no IPv6 or IPvFuture
  address: that check of the \<open>ipaddress\<close> module is the parameter
  \<open>check_bracketed_host\<close>. The last check of \<open>urlsplit\<close>, on characters that normalise to
  a delimiter under NFKC, never fails for code points below 256.
\<close>

definition lstrip_c0 :: "string \<Rightarrow> string" where
  "lstrip_c0 url = dropWhile (\<lambda>c. code c \<le> 32) url"

definition remove_unsafe :: "string \<Rightarrow> string" where
  "remove_unsafe url = filter (\<lambda>c. c \<notin> set [CHR 0x09, CHR 0x0D, CHR 0x0A]) url"

definition scheme_chars :: string where
  "scheme_chars = ''abcdefghijklmnopqrstuvwxyzABCDEFGHIJKLMNOPQRSTUVWXYZ0123456789+-.''"

definition is_ascii_alpha :: "char \<Rightarrow> bool" where
  "is_ascii_alpha c = in_ranges (code c) [(65, 90), (97, 122)]"

definition split_scheme :: "string \<Rightarrow> string" where
  "split_scheme url =
     (let pre = takeWhile (\<lambda>c. c \<noteq> CHR '':'') url
      in if length pre < length url \<and> pre \<noteq> [] \<and> is_ascii_alpha (hd pre) \<and>
            list_all (\<lambda>c. c \<in> set scheme_chars) pre
         then drop (length pre + 1) url
         else url)"

definition urlparse_netloc :: "(string \<Rightarrow> bool) \<Rightarrow> string \<Rightarrow> error + string" where
  "urlparse_netloc check_bracketed_host text =
     (let url = split_scheme (remove_unsafe (lstrip_c0 text))
      in if take 2 url = ''//''
         then (let netloc = takeWhile (\<lambda>c. c \<notin> set ''/?#'') (drop 2 url);
                   lb = (CHR ''['' \<in> set netloc);
                   rb = (CHR '']'' \<in> set netloc)
               in if lb \<noteq> rb then Inl ValueError
                  else if lb \<and> rb \<and>
                          \<not> check_bracketed_host
                              (takeWhile (\<lambda>c. c \<noteq> CHR '']'')
                                 (drop 1 (dropWhile (\<lambda>c. c \<noteq> CHR ''['') netloc)))
                       then Inl ValueError
                       else Inr netloc)
         else Inr [])"

definition endswith :: "string \<Rightarrow> string \<Rightarrow> bool" where
  "endswith s suffix =
     (length suffix \<le> length s \<and> drop (length s - length suffix) s = suffix)"

text \<open>
  \<open>infer_region_country\<close> is only called by \<open>normalize\<close>, with a string. Whatever
  \<open>urlparse\<close> raises is caught and leaves the host empty.
\<close>

definition infer_region_country :: "(string \<Rightarrow> bool) \<Rightarrow> string \<Rightarrow> string \<times> string" where
  "infer_region_country check_bracketed_host text =
     (case first_rule REGION_MAP text of
        Some rc \<Rightarrow> rc
      | None \<Rightarrow>
          (let host = (case urlparse_netloc check_bracketed_host text of
                         Inl ex \<Rightarrow> [] | Inr h \<Rightarrow> h)
           in if endswith host ''.de'' then (''Germany'', ''DE'') else (''Global'', [])))"

section \<open>Category classifier\<close>

definition CATEGORY_GUESS :: "(rx \<times> string) list" where
  "CATEGORY_GUESS =
     [(edge_alts ''auction'' [''tender'', ''RfS'', ''RFP'', ''bid''] ''awarded'', ''tender''),
      (edge_alts ''policy'' [''regulation'', ''consultation'', ''state-aid'', ''EEG''] ''grid code'',
       ''policy''),
      (edge_alts ''project'' [''NTP'', ''COD'', ''commission''] ''construction'', ''project''),
      (edge_alts ''price'' [''tariff'', ''LCOE'', ''module price''] ''battery price'', ''price''),
      (edge_alts ''ancillary'' [''capacity market'', ''balancing''] ''curtailment'', ''grid''),
      (edge_alts ''OEM'' [''inverter'', ''module'', ''battery''] ''technology'', ''tech'')]"

definition guess_category :: "string \<Rightarrow> string" where
  "guess_category text =
     (case first_rule CATEGORY_GUESS text of Some cat \<Rightarrow> cat | None \<Rightarrow> ''market'')"

section \<open>Impact scorer\<close>

text \<open>\<open>\b(GW|[3-9]\d{2}\s*MW)\b\<close>\<close>

definition capacity_rx :: rx where
  "capacity_rx =
     seqs [WordB,
           Alt (lit ''GW'')
               (seqs [Atom (Range CHR ''3'' CHR ''9''), Atom Digit, Atom Digit, Star Space, lit ''MW'']),
           WordB]"

text \<open>\<open>\b(>?\s*1000\s*MW|gigawatt)\b\<close>\<close>

definition gigawatt_rx :: rx where
  "gigawatt_rx =
     seqs [WordB,
           Alt (seqs [Opt (lit ''>''), Star Space, lit ''1000'', Star Space, lit ''MW''])
               (lit ''gigawatt''),
           WordB]"

text \<open>\<open>\bpolicy|auction result|capacity market|state-aid\b\<close>\<close>

definition policy_rx :: rx where
  "policy_rx = edge_alts ''policy'' [''auction result'', ''capacity market''] ''state-aid''"

definition score_impact :: "string \<Rightarrow> int" where
  "score_impact text =
     (let score = 3;
          score = (if search capacity_rx text then 4 else score);
          score = (if search gigawatt_rx text then 5 else score);
          score = (if search policy_rx text then max score 4 else score)
      in score)"

section \<open>Entry normalizer\<close>

text \<open>
  A feed entry is a bag of optional fields. The two timestamps are \<open>time.struct_time\<close>
  values, of which \<open>normalize\<close> reads the first six components.
\<close>

record struct_time =
  tm_year :: int
  tm_mon :: int
  tm_mday :: int
  tm_hour :: int
  tm_min :: int
  tm_sec :: int

record entry =
  title :: "string option"
  summary :: "string option"
  subtitle :: "string option"
  link :: "string option"
  published_parsed :: "struct_time option"
  updated_parsed :: "struct_time option"

record location =
  state_or_land :: string
  city :: string
  grid_zone :: string

record item =
  date_utc :: string
  headline :: string
  summary_80w :: string
  region :: string
  country :: string
  category :: string
  subtopic :: string
  capacity_MW :: int
  storage_MWh :: int
  project_stage :: string
  tariff_or_price_local :: string
  tariff_or_price_usd :: string
  entities :: "string list"
  location :: location
  effective_date :: string
  impact_score_1to5 :: int
  tags :: "string list"
  source_name :: string
  source_url :: string
  reliability :: string
  item_notes :: string

text \<open>Python's \<open>a or b\<close> on optional strings: \<open>None\<close> and the empty string are false.\<close>

fun py_or :: "string option \<Rightarrow> string option \<Rightarrow> string option" where
  "py_or None b = b"
| "py_or (Some s) b = (if s = [] then b else Some s)"

fun or_empty :: "string option \<Rightarrow> string" where
  "or_empty None = []"
| "or_empty (Some s) = s"

definition strip :: "string \<Rightarrow> string" where
  "strip s = rev (dropWhile is_space (rev (dropWhile is_space s)))"

text \<open>\<open>re.sub(r"\s+", " ", s)\<close>: every maximal run of whitespace becomes one space.\<close>

fun sub_ws :: "bool \<Rightarrow> string \<Rightarrow> string" where
  "sub_ws in_run [] = []"
| "sub_ws in_run (x # xs) =
     (if is_space x then (if in_run then sub_ws True xs else CHR '' '' # sub_ws True xs)
      else x # sub_ws False xs)"

text \<open>
  \<open>datetime(*dt[:6], tzinfo=timezone.utc)\<close> raises \<open>ValueError\<close> unless the six components
  are a date of the proleptic Gregorian calendar in the years 1..9999 and a time of day.
\<close>

definition is_leap :: "int \<Rightarrow> bool" where
  "is_leap y = (y mod 4 = 0 \<and> (y mod 100 \<noteq> 0 \<or> y mod 400 = 0))"

definition days_in_month :: "int \<Rightarrow> int \<Rightarrow> int" where
  "days_in_month y m =
     (if m = 2 then (if is_leap y then 29 else 28)
      else if m = 4 \<or> m = 6 \<or> m = 9 \<or> m = 11 then 30 else 31)"

definition datetime_ok :: "struct_time \<Rightarrow> bool" where
  "datetime_ok t =
     (1 \<le> tm_year t \<and> tm_year t \<le> 9999 \<and> 1 \<le> tm_mon t \<and> tm_mon t \<le> 12 \<and>
      1 \<le> tm_mday t \<and> tm_mday t \<le> days_in_month (tm_year t) (tm_mon t) \<and>
      0 \<le> tm_hour t \<and> tm_hour t \<le> 23 \<and> 0 \<le> tm_min t \<and> tm_min t \<le> 59 \<and>
      0 \<le> tm_sec t \<and> tm_sec t \<le> 59)"

text \<open>
  \<open>strftime("%Y-%m-%d")\<close>, with the year written on four digits (some C libraries drop
  the leading zeros of a year below 1000).
\<close>

definition two_digits :: "int \<Rightarrow> string" where
  "two_digits n = [''0123456789'' ! nat (n div 10 mod 10), ''0123456789'' ! nat (n mod 10)]"

definition strftime_ymd :: "struct_time \<Rightarrow> string" where
  "strftime_ymd t =
     two_digits (tm_year t div 100) @ two_digits (tm_year t) @ ''-'' @
     two_digits (tm_mon t) @ ''-'' @ two_digits (tm_mday t)"

definition official_sources :: "string list" where
  "official_sources = [''Bundesnetzagentur'', ''IEA'', ''IRENA'', ''EU Energy'']"

definition hybrid_rx :: rx where
  "hybrid_rx = edge_alts ''hybrid'' [''PV+BESS''] ''RTC''"

definition wind_rx :: rx where
  "wind_rx = seqs [WordB, lit ''wind'', WordB]"

definition pv_rx :: rx where
  "pv_rx = edge_alts ''PV'' [] ''solar''"

definition storage_rx :: rx where
  "storage_rx = edge_alts ''battery'' [''BESS''] ''storage''"

definition tags_of :: "string \<Rightarrow> string list" where
  "tags_of text =
     (let tags = [''utility-scale''];
          tags = (if search hybrid_rx text then tags @ [''PV+BESS''] else tags);
          tags = (if search wind_rx text then tags @ [''wind''] else tags);
          tags = (if search pv_rx text then tags @ [''PV''] else tags);
          tags = (if search storage_rx text then tags @ [''storage''] else tags)
      in tags)"

text \<open>
  \<open>normalize\<close>. \<open>now\<close> is the value of \<open>datetime.now(timezone.utc)\<close>, read when the entry
  carries no timestamp.
\<close>

definition normalize ::
  "(string \<Rightarrow> bool) \<Rightarrow> struct_time \<Rightarrow> string \<Rightarrow> entry \<Rightarrow> error + item" where
  "normalize check_bracketed_host now src_name e =
     (let title' = strip (or_empty (title e));
          summary' = strip (or_empty (py_or (summary e) (subtitle e)));
          link' = (case link e of None \<Rightarrow> [] | Some l \<Rightarrow> l);
          dt = (case published_parsed e of Some t \<Rightarrow> Some t | None \<Rightarrow> updated_parsed e)
      in case (case dt of
                 Some t \<Rightarrow> (if datetime_ok t then Inr (strftime_ymd t) else Inl ValueError)
               | None \<Rightarrow> Inr (strftime_ymd now)) of
           Inl ex \<Rightarrow> Inl ex
         | Inr date_utc' \<Rightarrow>
             (let text = title' @ '' '' @ summary';
                  (region', country') =
                     infer_region_country check_bracketed_host (text @ '' '' @ link');
                  category' = guess_category text;
                  impact = score_impact text
              in Inr \<lparr>date_utc = date_utc',
                      headline = title',
                      summary_80w = take 600 (sub_ws False summary'),
                      region = region',
                      country = (if country' \<noteq> [] then country'
                                 else if region' = ''Europe'' then ''EU'' else []),
                      category = category',
                      subtopic = [],
                      capacity_MW = 0,
                      storage_MWh = 0,
                      project_stage = ''NA'',
                      tariff_or_price_local = [],
                      tariff_or_price_usd = [],
                      entities = [],
                      location = \<lparr>state_or_land = [], city = [], grid_zone = []\<rparr>,
                      effective_date = date_utc',
                      impact_score_1to5 = impact,
                      tags = tags_of text,
                      source_name = src_name,
                      source_url = link',
                      reliability = (if src_name \<in> set official_sources
                                     then ''official'' else ''trade''),
                      item_notes = []\<rparr>))"

section \<open>Deduplicator and ranker\<close>

text \<open>
  The loop of \<open>main\<close> over \<open>items\<close>, with its two variables: the set \<open>seen\<close> of keys and
  the list \<open>dedup\<close> of the items kept so far.
\<close>

definition dedup_key :: "item \<Rightarrow> string \<times> string" where
  "dedup_key it = (headline it, source_url it)"

fun dedup_loop :: "(string \<times> string) set \<Rightarrow> item list \<Rightarrow> item list \<Rightarrow> item list" where
  "dedup_loop seen dedup [] = dedup"
| "dedup_loop seen dedup (it # items) =
     (let k = dedup_key it
      in if k \<in> seen then dedup_loop seen dedup items
         else dedup_loop (insert k seen) (dedup @ [it]) items)"

definition deduplicate :: "item list \<Rightarrow> item list" where
  "deduplicate items = dedup_loop {} [] items"


text \<open>
  \<open>pd.DataFrame(dedup).sort_values(["date_utc", "impact_score_1to5"], ascending=[False, False])\<close>.
  A frame built from an empty list has no columns, and sorting it by a column it does not
  have raises \<open>KeyError\<close>. On a frame with rows, sorting by several columns is a stable
  sort, here by date descending and then by score descending; dates compare as strings.
  The result of a stable sort does not depend on the algorithm, so a stable insertion sort
  stands for it: \<open>precedes a b\<close> says that \<open>a\<close> comes strictly before \<open>b\<close> in the order.
\<close>

definition precedes :: "item \<Rightarrow> item \<Rightarrow> bool" where
  "precedes a b =
     (date_utc b < date_utc a \<or>
      (date_utc a = date_utc b \<and> impact_score_1to5 b < impact_score_1to5 a))"

fun insert_row :: "item \<Rightarrow> item list \<Rightarrow> item list" where
  "insert_row x [] = [x]"
| "insert_row x (y # ys) = (if precedes y x then y # insert_row x ys else x # y # ys)"

definition stable_sort_rows :: "item list \<Rightarrow> item list" where
  "stable_sort_rows rows = foldr insert_row rows []"

definition sort_values :: "item list \<Rightarrow> error + item list" where
  "sort_values rows = (if rows = [] then Inl KeyError else Inr (stable_sort_rows rows))"

text \<open>
  \<open>main\<close>. A feed either fails to parse or yields its entries, of which the first 50 are
  normalized; an exception inside the \<open>try\<close> abandons the rest of that feed and keeps the
  items appended so far. The value returned is the frame that is written to the two files.
\<close>

fun feed_items :: "(string \<Rightarrow> bool) \<Rightarrow> struct_time \<Rightarrow> string \<Rightarrow> entry list \<Rightarrow> item list" where
  "feed_items chk now name [] = []"
| "feed_items chk now name (e # es) =
     (case normalize chk now name e of
        Inl ex \<Rightarrow> []
      | Inr it \<Rightarrow> it # feed_items chk now name es)"

definition main ::
  "(string \<Rightarrow> bool) \<Rightarrow> struct_time \<Rightarrow> (string \<times> (error + entry list)) list \<Rightarrow> error + item list" where
  "main chk now feeds =
     (let items = concat (map (\<lambda>(name, parsed).
                     case parsed of Inl ex \<Rightarrow> []
                     | Inr entries \<Rightarrow> feed_items chk now name (take 50 entries)) feeds)
      in sort_values (deduplicate items))"

section \<open>Sample inputs\<close>

text \<open>
  The entry with no field at all, the entry of the end-to-end example, an entry whose link
  lies under a \<open>.de\<close> domain, a clock reading, and an acceptance of every bracketed host.
\<close>

definition absent_entry :: entry where
  "absent_entry =
     \<lparr>title = None, summary = None, subtitle = None, link = None,
      published_parsed = None, updated_parsed = None\<rparr>"

definition auction_entry :: entry where
  "auction_entry =
     \<lparr>title = Some ''Germany awards 500 MW solar auction'',
      summary = Some ''Bundesnetzagentur confirms results'',
      subtitle = None, link = None, published_parsed = None, updated_parsed = None\<rparr>"

definition solar_park_entry :: entry where
  "solar_park_entry =
     \<lparr>title = Some ''Solar park opens'', summary = None, subtitle = None,
      link = Some ''https://www.pv-magazine.de/news/1'',
      published_parsed = None, updated_parsed = None\<rparr>"

text \<open>A record with a given headline, link, date and score, the other fields as \<open>normalize\<close>
  fills them for an entry without text.\<close>

definition sample_row :: "string \<Rightarrow> string \<Rightarrow> string \<Rightarrow> int \<Rightarrow> item" where
  "sample_row h u d n =
     \<lparr>date_utc = d, headline = h, summary_80w = [], region = ''Global'', country = [],
      category = ''market'', subtopic = [], capacity_MW = 0, storage_MWh = 0,
      project_stage = ''NA'', tariff_or_price_local = [], tariff_or_price_usd = [],
      entities = [], location = \<lparr>state_or_land = [], city = [], grid_zone = []\<rparr>,
      effective_date = d, impact_score_1to5 = n, tags = [''utility-scale''],
      source_name = ''PV-Tech'', source_url = u, reliability = ''trade'', item_notes = []\<rparr>"

definition sample_now :: struct_time where
  "sample_now =
     \<lparr>tm_year = 2024, tm_mon = 1, tm_mday = 2, tm_hour = 10, tm_min = 30, tm_sec = 0\<rparr>"

definition any_host :: "string \<Rightarrow> bool" where
  "any_host h = True"

text \<open>
  A position of a text is a word boundary on its left when the text before it is empty or
  ends with a character that is no word character.
\<close>

definition ends_word :: "string \<Rightarrow> bool" where
  "ends_word pre = (pre \<noteq> [] \<and> is_word (last pre))"

text \<open>Every timestamp that an entry carries is a calendar time, as a parsed feed date is.\<close>

definition timestamps_ok :: "entry \<Rightarrow> bool" where
  "timestamps_ok e =
     ((case published_parsed e of None \<Rightarrow> True | Some t \<Rightarrow> datetime_ok t) \<and>
      (case updated_parsed e of None \<Rightarrow> True | Some t \<Rightarrow> datetime_ok t))"

section \<open>Evaluation rules\<close>

text \<open>
  The character classes are decided on the eight bits of a character, most significant
  first; each rule is checked against its definition on all 256 characters.
\<close>

lemma is_word_Char:
  "is_word (Char b0 b1 b2 b3 b4 b5 b6 b7) =
     (if b7 then (if b6 then (if b4 then (if b3 then True else (if b2 then (if b1 then
     \<not> b0 else True) else True)) else True) else (if b5 then (if b4 then (if b3 then
     (if b2 then (if b1 then \<not> b0 else True) else (if b1 then \<not> b0 else b0)) else
     (if b2 then (if b1 then False else b0) else b1)) else (if b3 then (if b2 then False
     else (if b1 then \<not> b0 else False)) else False)) else False)) else (if b6 then (if
     b5 then (if b4 then (if b3 then (if b2 then False else (if b1 then \<not> b0 else
     True)) else True) else (if b3 then True else (if b2 then True else (if b1 then True
     else b0)))) else (if b4 then (if b3 then (if b2 then (if b1 then b0 else False) else
     (if b1 then \<not> b0 else True)) else True) else (if b3 then True else (if b2 then
     True else (if b1 then True else b0))))) else (if b5 then (if b4 then (if b3 then (if b2
     then False else \<not> b1) else True) else False) else False)))"
  by (cases b7; cases b6; cases b5; cases b4; cases b3; cases b2; cases b1; cases b0;
      simp add: is_word_def code_def)

lemma is_space_Char:
  "is_space (Char b0 b1 b2 b3 b4 b5 b6 b7) =
     (if b7 then (if b6 then False else (if b5 then (if b4 then False else (if b3 then False
     else (if b2 then False else (if b1 then False else \<not> b0)))) else (if b4 then False
     else (if b3 then False else (if b2 then (if b1 then False else b0) else False))))) else
     (if b6 then False else (if b5 then (if b4 then False else (if b3 then False else (if b2
     then False else (if b1 then False else \<not> b0)))) else (if b4 then (if b3 then b2
     else False) else (if b3 then (if b2 then \<not> b1 else (if b1 then True else b0)) else
     False)))))"
  by (cases b7; cases b6; cases b5; cases b4; cases b3; cases b2; cases b1; cases b0;
      simp add: is_space_def code_def)

lemma is_digit_Char:
  "is_digit (Char b0 b1 b2 b3 b4 b5 b6 b7) =
     (if b7 then False else (if b6 then False else (if b5 then (if b4 then (if b3 then (if
     b2 then False else \<not> b1) else True) else False) else False)))"
  by (cases b7; cases b6; cases b5; cases b4; cases b3; cases b2; cases b1; cases b0;
      simp add: is_digit_def code_def)

lemma to_lower_Char:
  "to_lower (Char b0 b1 b2 b3 b4 b5 b6 b7) =
     (if (if b7 then False else (if b6 then (if b5 then False else (if b4 then (if b3 then
         (if b2 then False else (if b1 then \<not> b0 else True)) else True) else (if b3
         then True else (if b2 then True else (if b1 then True else b0))))) else False))
      then Char b0 b1 b2 b3 b4 True b6 b7 else Char b0 b1 b2 b3 b4 b5 b6 b7)"
  by (cases b7; cases b6; cases b5; cases b4; cases b3; cases b2; cases b1; cases b0;
      simp add: to_lower_def code_def char_of_def bit_0 bit_Suc)

text \<open>
  The equations of the matcher as conditional rules, so that a branch is only unfolded
  once its condition has been decided.
\<close>

lemma rmatch_ev:
  "rmatch [] pw s = True"
  "rmatch (Eps # k) pw s = rmatch k pw s"
  "rmatch (Atom c # k) pw [] = False"
  "\<not> cmatch c x \<Longrightarrow> rmatch (Atom c # k) pw (x # xs) = False"
  "cmatch c x \<Longrightarrow> rmatch (Atom c # k) pw (x # xs) = rmatch k (is_word x) xs"
  "pw = next_word s \<Longrightarrow> rmatch (WordB # k) pw s = False"
  "pw \<noteq> next_word s \<Longrightarrow> rmatch (WordB # k) pw s = rmatch k pw s"
  "rmatch (Seq a b # k) pw s = rmatch (a # b # k) pw s"
  "\<not> rmatch (a # k) pw s \<Longrightarrow> rmatch (Alt a b # k) pw s = rmatch (b # k) pw s"
  "rmatch (a # k) pw s \<Longrightarrow> rmatch (Alt a b # k) pw s = True"
  "\<not> rmatch (a # k) pw s \<Longrightarrow> rmatch (Opt a # k) pw s = rmatch k pw s"
  "rmatch (a # k) pw s \<Longrightarrow> rmatch (Opt a # k) pw s = True"
  "rmatch (Star c # k) pw [] = rmatch k pw []"
  "\<not> cmatch c x \<Longrightarrow> rmatch (Star c # k) pw (x # xs) = rmatch k pw (x # xs)"
  "cmatch c x \<Longrightarrow> \<not> rmatch (Star c # k) (is_word x) xs \<Longrightarrow>
     rmatch (Star c # k) pw (x # xs) = rmatch k pw (x # xs)"
  "cmatch c x \<Longrightarrow> rmatch (Star c # k) (is_word x) xs \<Longrightarrow>
     rmatch (Star c # k) pw (x # xs) = True"
  by simp_all

lemma search_from_ev:
  "search_from r pw [] = rmatch [r] pw []"
  "\<not> rmatch [r] pw (x # xs) \<Longrightarrow> search_from r pw (x # xs) = search_from r (is_word x) xs"
  "rmatch [r] pw (x # xs) \<Longrightarrow> search_from r pw (x # xs) = True"
  by simp_all

lemma first_rule_ev:
  "first_rule [] text = None"
  "\<not> search r text \<Longrightarrow> first_rule ((r, v) # rules) text = first_rule rules text"
  "search r text \<Longrightarrow> first_rule ((r, v) # rules) text = Some v"
  by simp_all

lemmas char_ev = is_word_Char is_space_Char is_digit_Char to_lower_Char code_def

lemmas rx_ev = rmatch_ev search_from_ev first_rule_ev search_def edge_alts_def

lemmas pattern_defs = capacity_rx_def gigawatt_rx_def policy_rx_def hybrid_rx_def wind_rx_def
  pv_rx_def storage_rx_def REGION_MAP_def CATEGORY_GUESS_def

lemmas netloc_defs = urlparse_netloc_def split_scheme_def remove_unsafe_def lstrip_c0_def
  endswith_def is_ascii_alpha_def scheme_chars_def

lemmas normalize_defs = normalize_def infer_region_country_def guess_category_def
  score_impact_def tags_of_def strip_def official_sources_def strftime_ymd_def two_digits_def

section \<open>Entry normalizer: totality, score range, reliability\<close>

lemma normalize_returns:
  "timestamps_ok e \<Longrightarrow> \<exists>r. normalize chk now src e = Inr r"
  unfolding normalize_def Let_def timestamps_ok_def
  by (auto split: option.splits prod.splits)

lemma absent_entry_ok: "timestamps_ok absent_entry"
  by (simp add: timestamps_ok_def absent_entry_def)

lemma normalize_impact:
  "normalize chk now src e = Inr r \<Longrightarrow> \<exists>t. impact_score_1to5 r = score_impact t"
  unfolding normalize_def Let_def
  by (auto split: option.splits if_splits sum.splits prod.splits)

lemma normalize_reliability:
  "normalize chk now src e = Inr r \<Longrightarrow>
     source_name r = src \<and>
     reliability r = (if src \<in> set official_sources then ''official'' else ''trade'')"
  unfolding normalize_def Let_def
  by (auto split: option.splits if_splits sum.splits prod.splits)

lemma score_impact_cases: "score_impact t = 3 \<or> score_impact t = 4 \<or> score_impact t = 5"
  by (simp add: score_impact_def Let_def)



text \<open>
  Claim C9. Whatever the text, \<open>score_impact\<close> returns 3, 4 or 5: the score starts at 3
  and no branch lowers it, so the values 1 and 2 of the declared range 1..5 never occur,
  and the score of every record that \<open>normalize\<close> returns is at least 3.
\<close>

theorem score_impact_range:
  "score_impact text \<in> {3, 4, 5} \<and>
   (normalize chk now src e = Inr r \<longrightarrow> impact_score_1to5 r \<in> {3, 4, 5})"
proof (intro conjI impI)
  show "score_impact text \<in> {3, 4, 5}"
    using score_impact_cases [of "text"] by auto
next
  assume "normalize chk now src e = Inr r"
  then obtain t where "impact_score_1to5 r = score_impact t"
    using normalize_impact by blast
  then show "impact_score_1to5 r \<in> {3, 4, 5}"
    using score_impact_cases [of t] by auto
qed

theorem score_impact_range_witness:
  "\<exists>r. normalize any_host sample_now ''PV-Tech'' absent_entry = Inr r \<and>
       impact_score_1to5 r \<in> {3, 4, 5}"
proof -
  obtain r where r: "normalize any_host sample_now ''PV-Tech'' absent_entry = Inr r"
    using normalize_returns [OF absent_entry_ok] by blast
  with score_impact_range [of "[]" any_host sample_now "''PV-Tech''" absent_entry r]
  show ?thesis by blast
qed

text \<open>
  Claim C10. The reliability of a record is \<open>official\<close> exactly when its source name is
  one of the four names \<open>Bundesnetzagentur\<close>, \<open>IEA\<close>, \<open>IRENA\<close>, \<open>EU Energy\<close>, compared as
  whole strings, and \<open>trade\<close> otherwise; the records of the feed registered as \<open>IEA News\<close>
  are therefore \<open>trade\<close>.
\<close>

theorem reliability_official_iff:
  "normalize chk now src e = Inr r \<Longrightarrow>
     source_name r = src \<and>
     (reliability r = ''official'' \<longleftrightarrow>
        src = ''Bundesnetzagentur'' \<or> src = ''IEA'' \<or> src = ''IRENA'' \<or> src = ''EU Energy'') \<and>
     (reliability r \<noteq> ''official'' \<longrightarrow> reliability r = ''trade'') \<and>
     (src = ''IEA News'' \<longrightarrow> reliability r = ''trade'')"
  by (drule normalize_reliability) (simp add: official_sources_def)

theorem reliability_official_iff_witness:
  "\<exists>r. normalize any_host sample_now ''IEA News'' absent_entry = Inr r \<and>
       source_name r = ''IEA News'' \<and> reliability r = ''trade''"
proof -
  obtain r where r: "normalize any_host sample_now ''IEA News'' absent_entry = Inr r"
    using normalize_returns [OF absent_entry_ok] by blast
  from reliability_official_iff [OF r] r show ?thesis by blast
qed

section \<open>Entry normalizer: the entry without fields\<close>

lemma strip_empty: "strip [] = []"
  by (simp add: strip_def)

lemma absent_geo: "infer_region_country chk ''  '' = (''Global'', [])"
  by (simp del: rmatch.simps search_from.simps first_rule.simps
      add: infer_region_country_def netloc_defs rx_ev char_ev pattern_defs)

lemma absent_category: "guess_category '' '' = ''market''"
  by (simp del: rmatch.simps search_from.simps first_rule.simps
      add: guess_category_def rx_ev char_ev pattern_defs)

lemma absent_score: "score_impact '' '' = 3"
  by (simp del: rmatch.simps search_from.simps first_rule.simps
      add: score_impact_def rx_ev char_ev pattern_defs)

lemma absent_tags: "tags_of '' '' = [''utility-scale'']"
  by (simp del: rmatch.simps search_from.simps first_rule.simps
      add: tags_of_def rx_ev char_ev pattern_defs)

text \<open>
  Claim C5. Normalizing the entry that has no field, for a source that is not one of the
  official ones, gives a record with an empty headline, region \<open>Global\<close>, no country,
  category \<open>market\<close>, score 3, the baseline tag alone and reliability \<open>trade\<close>.
\<close>

theorem normalize_absent_entry:
  "src \<notin> set official_sources \<Longrightarrow>
     \<exists>r. normalize chk now src absent_entry = Inr r \<and>
         headline r = [] \<and> region r = ''Global'' \<and> country r = [] \<and>
         category r = ''market'' \<and> impact_score_1to5 r = 3 \<and>
         tags r = [''utility-scale''] \<and> reliability r = ''trade''"
  by (simp add: normalize_def Let_def absent_entry_def strip_empty absent_geo absent_category
      absent_score absent_tags)

theorem normalize_absent_entry_witness:
  "''PV-Tech'' \<notin> set official_sources \<and>
   (\<exists>r. normalize any_host sample_now ''PV-Tech'' absent_entry = Inr r \<and>
        headline r = [] \<and> region r = ''Global'' \<and> country r = [] \<and>
        category r = ''market'' \<and> impact_score_1to5 r = 3 \<and>
        tags r = [''utility-scale''] \<and> reliability r = ''trade'')"
proof -
  have h: "''PV-Tech'' \<notin> set official_sources"
    by (simp add: official_sources_def)
  from normalize_absent_entry [OF h, of any_host sample_now] h show ?thesis by blast
qed

section \<open>Entry normalizer: the end-to-end example\<close>

lemma auction_title:
  "strip ''Germany awards 500 MW solar auction'' = ''Germany awards 500 MW solar auction''"
  by (simp add: strip_def char_ev)

lemma auction_summary:
  "strip ''Bundesnetzagentur confirms results'' = ''Bundesnetzagentur confirms results''"
  by (simp add: strip_def char_ev)

lemma auction_geo:
  "infer_region_country chk
     ''Germany awards 500 MW solar auction Bundesnetzagentur confirms results '' =
   (''Germany'', ''DE'')"
  by (simp del: rmatch.simps search_from.simps first_rule.simps
      add: infer_region_country_def rx_ev char_ev pattern_defs)

lemma auction_category:
  "guess_category ''Germany awards 500 MW solar auction Bundesnetzagentur confirms results'' =
   ''tender''"
  by (simp del: rmatch.simps search_from.simps first_rule.simps
      add: guess_category_def rx_ev char_ev pattern_defs)

lemma auction_score:
  "score_impact ''Germany awards 500 MW solar auction Bundesnetzagentur confirms results'' = 4"
  by (simp del: rmatch.simps search_from.simps first_rule.simps
      add: score_impact_def rx_ev char_ev pattern_defs)

lemma auction_tags:
  "tags_of ''Germany awards 500 MW solar auction Bundesnetzagentur confirms results'' =
   [''utility-scale'', ''PV'']"
  by (simp del: rmatch.simps search_from.simps first_rule.simps
      add: tags_of_def rx_ev char_ev pattern_defs)

text \<open>
  Claim C7. The entry titled \<open>Germany awards 500 MW solar auction\<close>, with the summary
  \<open>Bundesnetzagentur confirms results\<close>, from the source \<open>Bundesnetzagentur\<close>, becomes a
  record of region \<open>Germany\<close>, country \<open>DE\<close>, category \<open>tender\<close>, score 4 and reliability
  \<open>official\<close>, whose tags are the baseline tag and \<open>PV\<close>.
\<close>

theorem normalize_auction_entry:
  "\<exists>r. normalize chk now ''Bundesnetzagentur'' auction_entry = Inr r \<and>
       region r = ''Germany'' \<and> country r = ''DE'' \<and> category r = ''tender'' \<and>
       impact_score_1to5 r = 4 \<and> reliability r = ''official'' \<and>
       tags r = [''utility-scale'', ''PV'']"
  by (simp add: normalize_def Let_def auction_entry_def auction_title auction_summary
      auction_geo auction_category auction_score auction_tags official_sources_def char_ev)

section \<open>Geography classifier: the domain of the link\<close>

lemma solar_title: "strip ''Solar park opens'' = ''Solar park opens''"
  by (simp add: strip_def char_ev)

lemma solar_no_rule:
  "first_rule REGION_MAP ''Solar park opens  https://www.pv-magazine.de/news/1'' = None"
  by (simp del: rmatch.simps search_from.simps first_rule.simps
      add: rx_ev char_ev pattern_defs)

lemma solar_text_netloc:
  "urlparse_netloc chk ''Solar park opens  https://www.pv-magazine.de/news/1'' = Inr []"
  by (simp add: netloc_defs char_ev)

lemma solar_link_netloc:
  "urlparse_netloc chk ''https://www.pv-magazine.de/news/1'' = Inr ''www.pv-magazine.de''"
  by (simp add: netloc_defs char_ev)

text \<open>
  Claim C2, at an entry that contradicts it. The entry is titled \<open>Solar park opens\<close> and
  links to \<open>https://www.pv-magazine.de/news/1\<close>. No geography rule matches the text with
  the link appended, and the network location of the link ends in \<open>.de\<close>; yet the record
  is \<open>Global\<close> with no country, because \<open>infer_region_country\<close> hands the whole text to
  \<open>urlparse\<close>, not the link, and a text that begins with a headline has no network
  location.
\<close>

theorem de_domain_not_recognised:
  "first_rule REGION_MAP ''Solar park opens  https://www.pv-magazine.de/news/1'' = None \<and>
   urlparse_netloc chk ''https://www.pv-magazine.de/news/1'' = Inr ''www.pv-magazine.de'' \<and>
   endswith ''www.pv-magazine.de'' ''.de'' \<and>
   (\<exists>r. normalize chk now src solar_park_entry = Inr r \<and>
        source_url r = ''https://www.pv-magazine.de/news/1'' \<and>
        region r = ''Global'' \<and> country r = [])"
  by (simp add: normalize_def Let_def solar_park_entry_def solar_title strip_empty
      infer_region_country_def solar_no_rule solar_text_netloc solar_link_netloc endswith_def
      char_ev)

section \<open>Geography classifier: precedence of the rules\<close>

lemma first_rule_least:
  "k < length rules \<Longrightarrow> search (fst (rules ! k)) t \<Longrightarrow>
   (\<forall>l<k. \<not> search (fst (rules ! l)) t) \<Longrightarrow>
   first_rule rules t = Some (snd (rules ! k))"
proof (induction rules arbitrary: k)
  case Nil
  then show ?case by simp
next
  case (Cons rule rules)
  obtain r v where rule: "rule = (r, v)" by (cases rule)
  show ?case
  proof (cases k)
    case 0
    with Cons.prems rule show ?thesis by simp
  next
    case (Suc k')
    with Cons.prems have "\<not> search r t"
      using rule by (metis fst_conv nth_Cons_0 zero_less_Suc)
    moreover have "first_rule rules t = Some (snd (rules ! k'))"
    proof (rule Cons.IH)
      show "k' < length rules" using Cons.prems Suc by simp
      show "search (fst (rules ! k')) t" using Cons.prems Suc by simp
      show "\<forall>l<k'. \<not> search (fst (rules ! l)) t"
      proof (intro allI impI)
        fix l assume "l < k'"
        then have "Suc l < k" using Suc by simp
        with Cons.prems have "\<not> search (fst ((rule # rules) ! Suc l)) t" by blast
        then show "\<not> search (fst (rules ! l)) t" by simp
      qed
    qed
    ultimately show ?thesis using rule Suc by simp
  qed
qed

lemma region_pairs_distinct: "distinct (map snd REGION_MAP)"
  by (simp add: REGION_MAP_def)

lemma german_eu_rule0: "search (fst (REGION_MAP ! 0)) ''German EU''"
  by (simp del: rmatch.simps search_from.simps first_rule.simps
      add: rx_ev char_ev pattern_defs)

lemma german_eu_rule2: "search (fst (REGION_MAP ! 2)) ''German EU''"
  by (simp del: rmatch.simps search_from.simps first_rule.simps
      add: rx_ev char_ev pattern_defs)

text \<open>
  Claim C8. The rules of \<open>REGION_MAP\<close> are tried in the order of the list and the first
  one that matches decides: when rule \<open>k\<close> matches the text and no rule listed before it
  does, the classifier returns the pair of rule \<open>k\<close>, whichever of the later rules match
  as well, and the pair of no other rule.
\<close>

theorem geography_first_match_wins:
  assumes "k < length REGION_MAP"
    and "search (fst (REGION_MAP ! k)) t"
    and "\<forall>l<k. \<not> search (fst (REGION_MAP ! l)) t"
  shows "infer_region_country chk t = snd (REGION_MAP ! k) \<and>
         (\<forall>j<length REGION_MAP.
            j \<noteq> k \<longrightarrow> infer_region_country chk t \<noteq> snd (REGION_MAP ! j))"
proof -
  have "first_rule REGION_MAP t = Some (snd (REGION_MAP ! k))"
    using assms by (rule first_rule_least)
  then have res: "infer_region_country chk t = snd (REGION_MAP ! k)"
    by (simp add: infer_region_country_def)
  have diff: "snd (REGION_MAP ! j) \<noteq> snd (REGION_MAP ! k)"
    if "j < length REGION_MAP" "j \<noteq> k" for j
  proof -
    have "j < length (map snd REGION_MAP)" "k < length (map snd REGION_MAP)"
      using that assms(1) by simp_all
    then have "map snd REGION_MAP ! j \<noteq> map snd REGION_MAP ! k"
      using region_pairs_distinct that(2) nth_eq_iff_index_eq by blast
    then show ?thesis using that assms(1) by simp
  qed
  show ?thesis
  proof (intro conjI allI impI)
    show "infer_region_country chk t = snd (REGION_MAP ! k)" by (rule res)
  next
    fix j
    assume "j < length REGION_MAP" "j \<noteq> k"
    then have "snd (REGION_MAP ! k) \<noteq> snd (REGION_MAP ! j)"
      using diff [of j] by simp
    then show "infer_region_country chk t \<noteq> snd (REGION_MAP ! j)"
      by (simp add: res)
  qed
qed

theorem geography_first_match_wins_witness:
  "search (fst (REGION_MAP ! 0)) ''German EU'' \<and> search (fst (REGION_MAP ! 2)) ''German EU'' \<and>
   infer_region_country any_host ''German EU'' = (''Germany'', ''DE'') \<and>
   infer_region_country any_host ''German EU'' \<noteq> (''Europe'', ''EU'')"
proof -
  have len: "0 < length REGION_MAP" by (simp add: REGION_MAP_def)
  have none: "\<forall>l<0::nat. \<not> search (fst (REGION_MAP ! l)) ''German EU''" by simp
  have "infer_region_country any_host ''German EU'' = snd (REGION_MAP ! 0)"
    using geography_first_match_wins [OF len german_eu_rule0 none] by blast
  moreover have "snd (REGION_MAP ! 0) = (''Germany'', ''DE'')" by (simp add: REGION_MAP_def)
  ultimately show ?thesis using german_eu_rule0 german_eu_rule2 by simp
qed

section \<open>Deduplicator\<close>

lemma dedup_loop_acc: "dedup_loop seen acc xs = acc @ dedup_loop seen [] xs"
proof (induction xs arbitrary: seen acc)
  case Nil
  then show ?case by simp
next
  case (Cons x xs)
  show ?case
  proof (cases "dedup_key x \<in> seen")
    case True
    then show ?thesis using Cons.IH [of seen acc] by simp
  next
    case False
    then show ?thesis
      using Cons.IH [of "insert (dedup_key x) seen" "acc @ [x]"]
        Cons.IH [of "insert (dedup_key x) seen" "[x]"] by simp
  qed
qed









section \<open>Ranker\<close>

lemma precedes_asym: "precedes a b \<Longrightarrow> \<not> precedes b a"
  by (auto simp: precedes_def)

lemma precedes_neg_trans: "precedes a c \<Longrightarrow> precedes a b \<or> precedes b c"
  by (auto simp: precedes_def)

lemma precedes_tie:
  "precedes a b \<Longrightarrow>
     (date_utc a, impact_score_1to5 a) \<noteq> (date_utc b, impact_score_1to5 b)"
  by (auto simp: precedes_def)

lemma mset_insert_row: "mset (insert_row x ys) = add_mset x (mset ys)"
  by (induction ys) auto

lemma set_insert_row: "set (insert_row x ys) = insert x (set ys)"
  by (induction ys) auto

lemma sorted_insert_row:
  "sorted_wrt (\<lambda>a b. \<not> precedes b a) ys \<Longrightarrow>
   sorted_wrt (\<lambda>a b. \<not> precedes b a) (insert_row x ys)"
proof (induction ys)
  case Nil
  then show ?case by simp
next
  case (Cons y ys)
  show ?case
  proof (cases "precedes y x")
    case True
    then have "\<not> precedes x y" by (rule precedes_asym)
    with True Cons show ?thesis by (auto simp: set_insert_row)
  next
    case False
    have "\<not> precedes z x" if "z \<in> set ys" for z
    proof
      assume "precedes z x"
      then have "precedes z y \<or> precedes y x" by (rule precedes_neg_trans)
      with False that Cons.prems show False by auto
    qed
    with False Cons.prems show ?thesis by auto
  qed
qed

lemma filter_insert_row_other:
  "\<not> P x \<Longrightarrow> filter P (insert_row x ys) = filter P ys"
  by (induction ys) auto

lemma filter_insert_row_tie:
  "filter (\<lambda>r. (date_utc r, impact_score_1to5 r) = (date_utc x, impact_score_1to5 x))
     (insert_row x ys) =
   x # filter (\<lambda>r. (date_utc r, impact_score_1to5 r) = (date_utc x, impact_score_1to5 x)) ys"
proof (induction ys)
  case Nil
  then show ?case by simp
next
  case (Cons y ys)
  show ?case
  proof (cases "precedes y x")
    case True
    then have "(date_utc y, impact_score_1to5 y) \<noteq> (date_utc x, impact_score_1to5 x)"
      by (rule precedes_tie)
    with True Cons.IH show ?thesis by auto
  next
    case False
    then show ?thesis by simp
  qed
qed

lemma mset_stable_sort_rows: "mset (stable_sort_rows rows) = mset rows"
  by (induction rows) (simp_all add: stable_sort_rows_def mset_insert_row)

lemma sorted_stable_sort_rows: "sorted_wrt (\<lambda>a b. \<not> precedes b a) (stable_sort_rows rows)"
  by (induction rows) (simp_all add: stable_sort_rows_def sorted_insert_row)

lemma stable_sort_rows_stable:
  "filter (\<lambda>r. (date_utc r, impact_score_1to5 r) = k) (stable_sort_rows rows) =
   filter (\<lambda>r. (date_utc r, impact_score_1to5 r) = k) rows"
proof (induction rows)
  case Nil
  then show ?case by (simp add: stable_sort_rows_def)
next
  case (Cons x rows)
  have unfold: "stable_sort_rows (x # rows) = insert_row x (stable_sort_rows rows)"
    by (simp add: stable_sort_rows_def)
  show ?case
  proof (cases "(date_utc x, impact_score_1to5 x) = k")
    case True
    then show ?thesis
      using filter_insert_row_tie [of x "stable_sort_rows rows"] Cons.IH unfold by auto
  next
    case False
    then show ?thesis
      using Cons.IH unfold by (simp add: filter_insert_row_other)
  qed
qed

lemma not_precedes_iff:
  "\<not> precedes b a \<longleftrightarrow>
     date_utc b < date_utc a \<or>
     (date_utc a = date_utc b \<and> impact_score_1to5 b \<le> impact_score_1to5 a)"
  by (auto simp: precedes_def)

lemma sort_values_rows:
  assumes "rows \<noteq> []"
  shows "\<exists>out. sort_values rows = Inr out \<and> mset out = mset rows \<and>
           sorted_wrt (\<lambda>a b. date_utc b < date_utc a \<or>
              (date_utc a = date_utc b \<and> impact_score_1to5 b \<le> impact_score_1to5 a)) out \<and>
           (\<forall>k. filter (\<lambda>r. (date_utc r, impact_score_1to5 r) = k) out =
                filter (\<lambda>r. (date_utc r, impact_score_1to5 r) = k) rows)"
proof -
  have "sort_values rows = Inr (stable_sort_rows rows)"
    using assms by (simp add: sort_values_def)
  moreover have "sorted_wrt (\<lambda>a b. date_utc b < date_utc a \<or>
      (date_utc a = date_utc b \<and> impact_score_1to5 b \<le> impact_score_1to5 a))
      (stable_sort_rows rows)"
    using sorted_stable_sort_rows [of rows] by (simp add: not_precedes_iff)
  ultimately show ?thesis
    using mset_stable_sort_rows stable_sort_rows_stable by blast
qed

lemma rank_example:
  "sort_values [sample_row ''A'' ''u'' ''2024-01-02'' 3, sample_row ''B'' ''u'' ''2024-01-02'' 5,
                sample_row ''C'' ''u'' ''2024-01-01'' 5] =
   Inr [sample_row ''B'' ''u'' ''2024-01-02'' 5, sample_row ''A'' ''u'' ''2024-01-02'' 3,
        sample_row ''C'' ''u'' ''2024-01-01'' 5]"
  by (simp add: sort_values_def stable_sort_rows_def precedes_def sample_row_def)

text \<open>
  Claim C3, at the input that contradicts it. When no feed yields an entry the
  deduplicated sequence is empty; the frame built from it has no column \<open>date_utc\<close>, and
  \<open>sort_values\<close> raises \<open>KeyError\<close> where the claim promises the sorted, here empty,
  sequence. On every sequence that is not empty the ranker does what the claim says:
  \<open>sort_values_rows\<close> above.
\<close>

theorem sort_values_empty_frame:
  "sort_values (deduplicate []) = Inl KeyError"
  by (simp add: sort_values_def deduplicate_def)


end
